theory Spec2Isabelle
  imports Complex_Main "HOL-Library.AList"
begin

section \<open>JavaScript values\<close>

text \<open>
  A JavaScript number is an IEEE double. The finite ones are modelled as exact reals
  (\<open>Fin\<close>), so sums and remainders are computed without rounding or overflow, and the
  two zeros are one value; the three remaining values are kept apart.
\<close>

datatype jsnum = Fin real | PInf | NInf | NaN

text \<open>
  The values \<open>JSON.parse\<close> produces, and \<open>undefined\<close> for a property that is absent.
  An object is the list of its own properties. A string is a list of 8-bit code units.
\<close>

datatype jsval =
    JUndefined
  | JNull
  | JBool bool
  | JNum jsnum
  | JStr string
  | JArr "jsval list"
  | JObj "(string \<times> jsval) list"

text \<open>Truthiness, as \<open>!x\<close>, \<open>x || y\<close>, \<open>x && y\<close> and \<open>x ? a : b\<close> test it.\<close>

fun truthy :: "jsval \<Rightarrow> bool" where
  "truthy JUndefined = False"
| "truthy JNull = False"
| "truthy (JBool b) = b"
| "truthy (JNum (Fin x)) = (x \<noteq> 0)"
| "truthy (JNum NaN) = False"
| "truthy (JNum _) = True"
| "truthy (JStr s) = (s \<noteq> [])"
| "truthy (JArr _) = True"
| "truthy (JObj _) = True"

text \<open>
  Three operations of the runtime are parameters of the model: the conversion of a
  string to a number (\<open>Number(s)\<close>), the conversion of a number to a string, and
  \<open>JSON.parse\<close>, which gives \<open>None\<close> where it throws.
\<close>

record runtime =
  StringToNumber :: "string \<Rightarrow> jsnum"
  NumberToString :: "jsnum \<Rightarrow> string"
  JSON_parse :: "string \<Rightarrow> jsval option"

datatype error =
    Empty_response
  | No_valid_JSON
  | TypeError
  | Collaborator_failure
  | AI_JSON_ERROR error
  | SCHEMA_MISSING_FIELDS
  | OUT_OF_SCALE nat jsval jsval

text \<open>
  Reading a property of a value that is neither \<open>null\<close> nor \<open>undefined\<close>, for the
  property names the program uses (none of them is inherited from a prototype), and
  assigning a property of an object.
\<close>

fun get_field :: "jsval \<Rightarrow> string \<Rightarrow> jsval" where
  "get_field (JObj fs) k = (case map_of fs k of Some v \<Rightarrow> v | None \<Rightarrow> JUndefined)"
| "get_field _ k = JUndefined"

fun set_field :: "jsval \<Rightarrow> string \<Rightarrow> jsval \<Rightarrow> jsval" where
  "set_field (JObj fs) k v = JObj (AList.update k v fs)"
| "set_field x k v = x"

text \<open>\<open>a || b\<close>\<close>

definition js_or :: "jsval \<Rightarrow> jsval \<Rightarrow> jsval" where
  "js_or a b = (if truthy a then a else b)"

text \<open>
  Conversion of a value to a primitive raises a \<open>TypeError\<close> for an object that has an own
  property \<open>toString\<close> (a parsed value, so not callable), and for an array that holds
  such an object: \<open>join\<close> converts every element but \<open>null\<close> and \<open>undefined\<close>.
\<close>

fun throws :: "jsval \<Rightarrow> bool" where
  "throws (JObj fs) = (map_of fs ''toString'' \<noteq> None)"
| "throws (JArr xs) = (\<exists>x \<in> set xs. throws x)"
| "throws _ = False"

fun join :: "string \<Rightarrow> string list \<Rightarrow> string" where
  "join sep [] = []"
| "join sep [x] = x"
| "join sep (x # y # ys) = x @ sep @ join sep (y # ys)"

fun ToString :: "runtime \<Rightarrow> jsval \<Rightarrow> string" where
  "ToString rt JUndefined = ''undefined''"
| "ToString rt JNull = ''null''"
| "ToString rt (JBool b) = (if b then ''true'' else ''false'')"
| "ToString rt (JNum n) = NumberToString rt n"
| "ToString rt (JStr s) = s"
| "ToString rt (JArr xs) =
     join '','' (map (\<lambda>x. if x = JNull \<or> x = JUndefined then [] else ToString rt x) xs)"
| "ToString rt (JObj fs) = ''[object Object]''"

text \<open>\<open>Number(v)\<close>. An object converts to the string \<open>[object Object]\<close>, which is not a number.\<close>

fun ToNumber :: "runtime \<Rightarrow> jsval \<Rightarrow> error + jsnum" where
  "ToNumber rt JUndefined = Inr NaN"
| "ToNumber rt JNull = Inr (Fin 0)"
| "ToNumber rt (JBool b) = Inr (Fin (if b then 1 else 0))"
| "ToNumber rt (JNum n) = Inr n"
| "ToNumber rt (JStr s) = Inr (StringToNumber rt s)"
| "ToNumber rt (JArr xs) =
     (if throws (JArr xs) then Inl TypeError
      else Inr (StringToNumber rt (ToString rt (JArr xs))))"
| "ToNumber rt (JObj fs) = (if throws (JObj fs) then Inl TypeError else Inr NaN)"

subsection \<open>Strings\<close>

text \<open>
  \<open>toLowerCase\<close> on 8-bit code units: the letters A to Z and the upper-case letters of
  Latin-1.
\<close>

definition upper_case :: string where
  "upper_case = ''ABCDEFGHIJKLMNOPQRSTUVWXYZ'' @
     [CHR 0xC0, CHR 0xC1, CHR 0xC2, CHR 0xC3, CHR 0xC4, CHR 0xC5, CHR 0xC6, CHR 0xC7,
      CHR 0xC8, CHR 0xC9, CHR 0xCA, CHR 0xCB, CHR 0xCC, CHR 0xCD, CHR 0xCE, CHR 0xCF,
      CHR 0xD0, CHR 0xD1, CHR 0xD2, CHR 0xD3, CHR 0xD4, CHR 0xD5, CHR 0xD6,
      CHR 0xD8, CHR 0xD9, CHR 0xDA, CHR 0xDB, CHR 0xDC, CHR 0xDD, CHR 0xDE]"

definition lower_case :: string where
  "lower_case = ''abcdefghijklmnopqrstuvwxyz'' @
     [CHR 0xE0, CHR 0xE1, CHR 0xE2, CHR 0xE3, CHR 0xE4, CHR 0xE5, CHR 0xE6, CHR 0xE7,
      CHR 0xE8, CHR 0xE9, CHR 0xEA, CHR 0xEB, CHR 0xEC, CHR 0xED, CHR 0xEE, CHR 0xEF,
      CHR 0xF0, CHR 0xF1, CHR 0xF2, CHR 0xF3, CHR 0xF4, CHR 0xF5, CHR 0xF6,
      CHR 0xF8, CHR 0xF9, CHR 0xFA, CHR 0xFB, CHR 0xFC, CHR 0xFD, CHR 0xFE]"

definition toLower :: "char \<Rightarrow> char" where
  "toLower c = (case map_of (zip upper_case lower_case) c of Some l \<Rightarrow> l | None \<Rightarrow> c)"

definition toLowerCase :: "string \<Rightarrow> string" where
  "toLowerCase s = map toLower s"

text \<open>\<open>s.startsWith(t)\<close>\<close>

definition startsWith :: "string \<Rightarrow> string \<Rightarrow> bool" where
  "startsWith s t = (take (length t) s = t)"

text \<open>
  \<open>s.trim()\<close>: white space and line terminators are removed at both ends (those with a
  code unit below 256: tab, line feed, vertical tab, form feed, carriage return, space
  and no-break space).
\<close>

definition isSpace :: "char \<Rightarrow> bool" where
  "isSpace c =
     (c \<in> set [CHR 0x09, CHR 0x0A, CHR 0x0B, CHR 0x0C, CHR 0x0D, CHR 0x20, CHR 0xA0])"

definition trim :: "string \<Rightarrow> string" where
  "trim s = rev (dropWhile isSpace (rev (dropWhile isSpace s)))"

text \<open>\<open>s.indexOf(c)\<close> and \<open>s.lastIndexOf(c)\<close>, with \<open>None\<close> for \<open>-1\<close>; \<open>s.slice(i, j)\<close>.\<close>

definition indexOf :: "string \<Rightarrow> char \<Rightarrow> nat option" where
  "indexOf s c =
     (if c \<in> set s then Some (length (takeWhile (\<lambda>x. x \<noteq> c) s)) else None)"

definition lastIndexOf :: "string \<Rightarrow> char \<Rightarrow> nat option" where
  "lastIndexOf s c =
     (if c \<in> set s then Some (length s - 1 - length (takeWhile (\<lambda>x. x \<noteq> c) (rev s)))
      else None)"

definition slice :: "string \<Rightarrow> nat \<Rightarrow> nat \<Rightarrow> string" where
  "slice s i j = take (j - i) (drop i s)"

text \<open>
  Property lookup on an object literal of the program (\<open>PITCH_CLASS[key]\<close>,
  \<open>MODES[name]\<close>): an own property gives its value; a name that the object inherits
  from \<open>Object.prototype\<close> gives a function or an object that is neither a number nor an
  array; any other name gives \<open>undefined\<close>.
\<close>

datatype 'a property = Own 'a | Inherited | Missing

definition Object_prototype :: "string list" where
  "Object_prototype =
     [''constructor'', ''__defineGetter__'', ''__defineSetter__'', ''hasOwnProperty'',
      ''__lookupGetter__'', ''__lookupSetter__'', ''isPrototypeOf'',
      ''propertyIsEnumerable'', ''toString'', ''valueOf'', ''__proto__'',
      ''toLocaleString'']"

definition get_property :: "(string \<times> 'a) list \<Rightarrow> string \<Rightarrow> 'a property" where
  "get_property obj k =
     (case map_of obj k of
        Some v \<Rightarrow> Own v
      | None \<Rightarrow> if k \<in> set Object_prototype then Inherited else Missing)"

section \<open>Scale helpers\<close>

definition PITCH_CLASS :: "(string \<times> int) list" where
  "PITCH_CLASS =
     [(''C'', 0), (''C#'', 1), (''Db'', 1), (''D'', 2), (''D#'', 3), (''Eb'', 3),
      (''E'', 4), (''F'', 5), (''F#'', 6), (''Gb'', 6), (''G'', 7), (''G#'', 8),
      (''Ab'', 8), (''A'', 9), (''A#'', 10), (''Bb'', 10), (''B'', 11)]"

definition MODES :: "(string \<times> int list) list" where
  "MODES =
     [(''major'',      [0, 2, 4, 5, 7, 9, 11]),
      (''minor'',      [0, 2, 3, 5, 7, 8, 10]),
      (''dorian'',     [0, 2, 3, 5, 7, 9, 10]),
      (''mixolydian'', [0, 2, 4, 5, 7, 9, 10])]"

definition MODES_major :: "int list" where
  "MODES_major = [0, 2, 4, 5, 7, 9, 11]"

text \<open>The two policy flags read from the environment when the server starts.\<close>

record config =
  STRICT_SCALE :: bool
  SNAP_TO_SCALE :: bool

text \<open>
  The remainder operator \<open>%\<close> on finite numbers with a non-zero divisor: the quotient
  is truncated towards zero, so the result has the sign of the dividend.
\<close>

definition trunc :: "real \<Rightarrow> int" where
  "trunc x = (if x < 0 then - \<lfloor>- x\<rfloor> else \<lfloor>x\<rfloor>)"

definition js_rem :: "real \<Rightarrow> real \<Rightarrow> real" where
  "js_rem x y = x - y * of_int (trunc (x / y))"

text \<open>\<open>const pc = (n) => ((n % 12) + 12) % 12\<close>\<close>

definition pc :: "real \<Rightarrow> real" where
  "pc n = js_rem (js_rem n 12 + 12) 12"

text \<open>
  The object \<open>{ root, degrees, set }\<close> that \<open>buildScale\<close> returns. \<open>root\<close> is what
  \<open>PITCH_CLASS[key]\<close> gave; \<open>set'\<close> lists the members of the \<open>Set\<close>, which are numbers
  (\<open>NaN\<close> when \<open>root\<close> is not a number).
\<close>

record scale =
  root :: "int property"
  degrees :: "int list"
  set' :: "jsnum list"

text \<open>
  \<open>(root + d) % 12\<close>: a sum of numbers when \<open>root\<close> is a number; otherwise \<open>+\<close>
  concatenates strings and the remainder of the result is \<open>NaN\<close>.
\<close>

definition root_plus :: "int property \<Rightarrow> int \<Rightarrow> jsnum" where
  "root_plus root_v d =
     (case root_v of
        Own r \<Rightarrow> Fin (js_rem (of_int (r + d)) 12)
      | _ \<Rightarrow> NaN)"

text \<open>
  \<open>buildScale\<close>. The property key \<open>key\<close> is converted to a string. A \<open>mode\<close> that is
  truthy and not a string has no \<open>toLowerCase\<close>, and a \<open>degrees\<close> that is inherited from
  \<open>Object.prototype\<close> has no \<open>map\<close>: both calls raise a \<open>TypeError\<close>.
\<close>

definition buildScale :: "runtime \<Rightarrow> jsval \<Rightarrow> jsval \<Rightarrow> error + scale option" where
  "buildScale rt key mode =
     (if throws key then Inl TypeError
      else
        let root_v = get_property PITCH_CLASS (ToString rt key) in
        (case js_or mode (JStr []) of
           JStr m \<Rightarrow>
             (let degrees_v =
                (case get_property MODES (toLowerCase m) of
                   Own ds \<Rightarrow> Own ds
                 | Inherited \<Rightarrow> Inherited
                 | Missing \<Rightarrow> Own MODES_major)
              in if root_v = Missing then Inr None
                 else
                   (case degrees_v of
                      Own ds \<Rightarrow>
                        Inr (Some \<lparr>root = root_v, degrees = ds,
                                   set' = remdups (map (root_plus root_v) ds)\<rparr>)
                    | _ \<Rightarrow> Inl TypeError))
         | _ \<Rightarrow> Inl TypeError))"

text \<open>\<open>scaleSet.set.has(x)\<close> for a finite number \<open>x\<close>.\<close>

definition has :: "scale \<Rightarrow> real \<Rightarrow> bool" where
  "has scaleSet x = (Fin x \<in> set (set' scaleSet))"

definition inScale :: "real \<Rightarrow> scale option \<Rightarrow> bool" where
  "inScale p scaleSet =
     (case scaleSet of
        None \<Rightarrow> True
      | Some s \<Rightarrow> has s (pc p))"

text \<open>The loop \<open>for (let d = 1; d <= 6; d++)\<close> of \<open>nearestInScale\<close>, from \<open>d\<close> on.\<close>

function nearest_from :: "real \<Rightarrow> scale \<Rightarrow> nat \<Rightarrow> real" where
  "nearest_from p s d =
     (if d \<le> 6 then
        (if has s (pc (p - real d)) then p - real d
         else if has s (pc (p + real d)) then p + real d
         else nearest_from p s (d + 1))
      else p)"
  by pat_completeness auto
termination
  by (relation "measure (\<lambda>(p, s, d). 7 - d)") auto

definition nearestInScale :: "real \<Rightarrow> scale option \<Rightarrow> real" where
  "nearestInScale p scaleSet =
     (case scaleSet of
        None \<Rightarrow> p
      | Some s \<Rightarrow> if inScale p scaleSet then p else nearest_from p s 1)"

section \<open>Extracting JSON from the response text\<close>

text \<open>
  \<open>text.replace(/```(?:json)?/gi, '')\<close>: every run of three backquotes, with the word
  \<open>json\<close> in any case when it follows at once, is removed, from left to right.
\<close>

fun strip_fences :: "string \<Rightarrow> string" where
  "strip_fences [] = []"
| "strip_fences (c # cs) =
     (if take 3 (c # cs) = ''```'' then
        (if toLowerCase (take 4 (drop 2 cs)) = ''json'' then strip_fences (drop 6 cs)
         else strip_fences (drop 2 cs))
      else c # strip_fences cs)"

text \<open>The slice between the first \<open>{\<close> and the last \<open>}\<close>, when both exist in this order.\<close>

definition first_last_slice :: "string \<Rightarrow> string option" where
  "first_last_slice text =
     (case (indexOf text (CHR ''{''), lastIndexOf text (CHR ''}'')) of
        (Some first_i, Some last_i) \<Rightarrow>
          if last_i > first_i then Some (slice text first_i (last_i + 1)) else None
      | _ \<Rightarrow> None)"

text \<open>
  The balance-braces scan \<open>for (let i = 0; i < text.length; i++)\<close>, from index \<open>i\<close> on
  with the current \<open>depth\<close> and \<open>start\<close>.
\<close>

function scan :: "runtime \<Rightarrow> string \<Rightarrow> nat \<Rightarrow> int \<Rightarrow> int \<Rightarrow> error + jsval" where
  "scan rt text i depth start =
     (if i < length text then
        (if text ! i = CHR ''{'' then
           scan rt text (i + 1) (depth + 1) (if depth = 0 then int i else start)
         else if text ! i = CHR ''}'' then
           (if depth - 1 = 0 \<and> start \<noteq> - 1 then
              (case JSON_parse rt (slice text (nat start) (i + 1)) of
                 Some v \<Rightarrow> Inr v
               | None \<Rightarrow> scan rt text (i + 1) (depth - 1) start)
            else scan rt text (i + 1) (depth - 1) start)
         else scan rt text (i + 1) depth start)
      else Inl No_valid_JSON)"
  by pat_completeness auto
termination
  by (relation "measure (\<lambda>(rt, text, i, depth, start). length text - i)") auto

definition extractJson :: "runtime \<Rightarrow> jsval \<Rightarrow> error + jsval" where
  "extractJson rt text0 =
     (case text0 of
        JStr s \<Rightarrow>
          if s = [] then Inl Empty_response
          else
            let text = trim (strip_fences s) in
            (case JSON_parse rt text of
               Some v \<Rightarrow> Inr v
             | None \<Rightarrow>
                 (case first_last_slice text of
                    Some sl \<Rightarrow>
                      (case JSON_parse rt sl of
                         Some v \<Rightarrow> Inr v
                       | None \<Rightarrow> scan rt text 0 0 (- 1))
                  | None \<Rightarrow> scan rt text 0 0 (- 1)))
      | _ \<Rightarrow> Inl Empty_response)"

section \<open>The route \<open>POST /compose\<close>\<close>

text \<open>
  The fields the handler reads from \<open>req.body\<close>; a field the request leaves out is
  \<open>JUndefined\<close>.
\<close>

record body =
  clipType :: jsval
  bars :: jsval
  key :: jsval
  mode :: jsval
  feel :: jsval
  text' :: jsval

text \<open>Arithmetic and comparison on numbers, as far as the handler uses them.\<close>

fun js_times :: "jsnum \<Rightarrow> real \<Rightarrow> jsnum" where
  "js_times (Fin x) k = Fin (x * k)"
| "js_times PInf k = (if k > 0 then PInf else if k < 0 then NInf else NaN)"
| "js_times NInf k = (if k > 0 then NInf else if k < 0 then PInf else NaN)"
| "js_times NaN k = NaN"

fun js_le :: "jsnum \<Rightarrow> jsnum \<Rightarrow> bool" where
  "js_le NaN _ = False"
| "js_le _ NaN = False"
| "js_le (Fin x) (Fin y) = (x \<le> y)"
| "js_le NInf _ = True"
| "js_le _ PInf = True"
| "js_le _ _ = False"

text \<open>\<open>a || b\<close> on numbers\<close>

definition num_or :: "jsnum \<Rightarrow> jsnum \<Rightarrow> jsnum" where
  "num_or a b = (if truthy (JNum a) then a else b)"



text \<open>
  \<open>!data || !Array.isArray(data.notes) || !data.time_signature || data.length_bars == null\<close>
\<close>

fun isArray :: "jsval \<Rightarrow> bool" where
  "isArray (JArr _) = True"
| "isArray _ = False"

fun elements :: "jsval \<Rightarrow> jsval list" where
  "elements (JArr xs) = xs"
| "elements _ = []"

definition schema_missing :: "jsval \<Rightarrow> bool" where
  "schema_missing data =
     (\<not> truthy data \<or> \<not> isArray (get_field data ''notes'')
      \<or> \<not> truthy (get_field data ''time_signature'')
      \<or> get_field data ''length_bars'' = JNull \<or> get_field data ''length_bars'' = JUndefined)"

text \<open>
  \<open>(data.time_signature && data.time_signature.startsWith('3/')) ? 3 : 4\<close>; a truthy
  value that is not a string has no \<open>startsWith\<close>.
\<close>

definition beatsPerBar :: "jsval \<Rightarrow> error + real" where
  "beatsPerBar ts =
     (case ts of
        JStr s \<Rightarrow> Inr (if s \<noteq> [] \<and> startsWith s ''3/'' then 3 else 4)
      | _ \<Rightarrow> if truthy ts then Inl TypeError else Inr 4)"

text \<open>
  The defaulting of lines 184 to 188; \<open>lengthBars\<close> is the value of
  \<open>Number(data.length_bars) || barsNum\<close>.
\<close>

definition defaulting :: "body \<Rightarrow> jsnum \<Rightarrow> jsval \<Rightarrow> jsval" where
  "defaulting req lengthBars data =
     (let d1 = set_field data ''clip_type''
                 (js_or (clipType req) (js_or (get_field data ''clip_type'') (JStr ''chords'')));
          d2 = set_field d1 ''length_bars'' (JNum lengthBars);
          d3 = set_field d2 ''time_signature''
                 (js_or (get_field d2 ''time_signature'') (JStr ''4/4''));
          d4 = (if truthy (key req) \<and> \<not> truthy (get_field d3 ''key'')
                then set_field d3 ''key'' (key req) else d3);
          d5 = (if truthy (mode req) \<and> \<not> truthy (get_field d4 ''mode'')
                then set_field d4 ''mode'' (mode req) else d4)
      in d5)"

text \<open>
  \<open>Number.isFinite(x)\<close> holds of the finite numbers only (it converts nothing); the
  model gives the number with it.
\<close>

fun Number_isFinite :: "jsval \<Rightarrow> real option" where
  "Number_isFinite (JNum (Fin x)) = Some x"
| "Number_isFinite _ = None"

text \<open>The predicate of the note filter.\<close>

definition note_ok :: "jsnum \<Rightarrow> jsval \<Rightarrow> bool" where
  "note_ok totalBeats n =
     (case Number_isFinite (get_field n ''tb'') of
        None \<Rightarrow> False
      | Some tb \<Rightarrow>
          tb \<ge> 0 \<and>
          (case Number_isFinite (get_field n ''db'') of
             None \<Rightarrow> False
           | Some db \<Rightarrow>
               db > 0 \<and>
               (case Number_isFinite (get_field n ''p'') of
                  None \<Rightarrow> False
                | Some p \<Rightarrow> p \<ge> 0 \<and> p \<le> 127 \<and> js_le (Fin (tb + db)) totalBeats)))"

text \<open>Reading \<open>n.tb\<close> of an element \<open>null\<close> raises a \<open>TypeError\<close>.\<close>

definition filter_notes :: "jsnum \<Rightarrow> jsval list \<Rightarrow> error + jsval list" where
  "filter_notes totalBeats ns =
     (if JNull \<in> set ns \<or> JUndefined \<in> set ns then Inl TypeError
      else Inr (filter (note_ok totalBeats) ns))"

text \<open>
  The pitch of a note that passed the filter: a finite number. \<open>None\<close> does not occur
  among such notes.
\<close>

definition pitch :: "jsval \<Rightarrow> real option" where
  "pitch n = Number_isFinite (get_field n ''p'')"

text \<open>
  The function mapped over the notes in the snap branch, with the increment of
  \<open>snappedCount\<close> it makes.
\<close>

definition snap_note :: "scale \<Rightarrow> jsval \<Rightarrow> jsval \<times> nat" where
  "snap_note s n =
     (case pitch n of
        Some p \<Rightarrow>
          if inScale p (Some s) then (n, 0)
          else
            let p2 = nearestInScale p (Some s)
            in (set_field n ''p'' (JNum (Fin p2)), if p2 \<noteq> p then 1 else 0)
      | None \<Rightarrow> (n, 0))"

definition out_of_scale :: "scale \<Rightarrow> jsval \<Rightarrow> bool" where
  "out_of_scale s n = (case pitch n of Some p \<Rightarrow> \<not> inScale p (Some s) | None \<Rightarrow> False)"

text \<open>\<open>(data.key && data.mode) ? buildScale(data.key, data.mode) : null\<close>\<close>

definition scaleSet_of :: "runtime \<Rightarrow> jsval \<Rightarrow> error + scale option" where
  "scaleSet_of rt data =
     (if truthy (get_field data ''key'') \<and> truthy (get_field data ''mode'')
      then buildScale rt (get_field data ''key'') (get_field data ''mode'')
      else Inr None)"

text \<open>Scale enforcement (lines 197 to 217) on the document with its filtered notes.\<close>

definition scale_enforcement :: "runtime \<Rightarrow> config \<Rightarrow> jsval \<Rightarrow> error + jsval" where
  "scale_enforcement rt cfg data =
     (case scaleSet_of rt data of
        Inl e \<Rightarrow> Inl e
      | Inr None \<Rightarrow> Inr data
      | Inr (Some s) \<Rightarrow>
          if SNAP_TO_SCALE cfg then
            (let snapped = map (snap_note s) (elements (get_field data ''notes''));
                 snappedCount = sum_list (map snd snapped);
                 data' = set_field data ''notes'' (JArr (map fst snapped))
             in Inr (if snappedCount > 0
                     then set_field data' ''_snapped_info''
                            (JObj [(''snapped_count'', JNum (Fin (real snappedCount))),
                                   (''mode'', JStr ''snap_to_scale'')])
                     else data'))
          else if STRICT_SCALE cfg then
            (let bad = filter (out_of_scale s) (elements (get_field data ''notes''))
             in if bad \<noteq> []
                then Inl (OUT_OF_SCALE (length bad) (get_field data ''key'')
                            (get_field data ''mode''))
                else Inr data)
          else Inr data)"

text \<open>\<open>Number(data.length_bars) || barsNum\<close>\<close>

definition lengthBars_of :: "runtime \<Rightarrow> jsnum \<Rightarrow> jsval \<Rightarrow> error + jsnum" where
  "lengthBars_of rt barsNum data =
     (case ToNumber rt (get_field data ''length_bars'') of
        Inl e \<Rightarrow> Inl e
      | Inr lb \<Rightarrow> Inr (num_or lb barsNum))"

text \<open>\<open>const totalBeats = (Number(data.length_bars) || barsNum) * beatsPerBar\<close>\<close>

definition totalBeats_of :: "runtime \<Rightarrow> jsnum \<Rightarrow> jsval \<Rightarrow> error + jsnum" where
  "totalBeats_of rt barsNum data =
     (case beatsPerBar (get_field data ''time_signature'') of
        Inl e \<Rightarrow> Inl e
      | Inr bpb \<Rightarrow>
          (case lengthBars_of rt barsNum data of
             Inl e \<Rightarrow> Inl e
           | Inr lengthBars \<Rightarrow> Inr (js_times lengthBars bpb)))"

text \<open>
  Normalize and clamp by bar length (lines 181 to 195): the document with its defaults
  filled in and its notes filtered.
\<close>

definition clamp :: "runtime \<Rightarrow> body \<Rightarrow> jsnum \<Rightarrow> jsval \<Rightarrow> error + jsval" where
  "clamp rt req barsNum data =
     (case totalBeats_of rt barsNum data of
        Inl e \<Rightarrow> Inl e
      | Inr totalBeats \<Rightarrow>
          (case lengthBars_of rt barsNum data of
             Inl e \<Rightarrow> Inl e
           | Inr lengthBars \<Rightarrow>
               (let data1 = defaulting req lengthBars data
                in case filter_notes totalBeats (elements (get_field data1 ''notes'')) of
                     Inl e \<Rightarrow> Inl e
                   | Inr ns \<Rightarrow> Inr (set_field data1 ''notes'' (JArr ns)))))"

text \<open>The handler from the schema check on (lines 176 to 219), given the parsed \<open>data\<close>.\<close>

definition respond :: "runtime \<Rightarrow> config \<Rightarrow> body \<Rightarrow> jsnum \<Rightarrow> jsval \<Rightarrow> error + jsval" where
  "respond rt cfg req barsNum data =
     (if schema_missing data then Inl SCHEMA_MISSING_FIELDS
      else
        (case clamp rt req barsNum data of
           Inl e \<Rightarrow> Inl e
         | Inr d \<Rightarrow> scale_enforcement rt cfg d))"


section \<open>The extraction strategies, as the specification words them\<close>

text \<open>
  The brace nesting depth after the first \<open>i\<close> characters: opening braces so far minus
  closing braces so far.
\<close>

definition depth_at :: "string \<Rightarrow> nat \<Rightarrow> int" where
  "depth_at text i =
     int (count_list (take i text) (CHR ''{'')) - int (count_list (take i text) (CHR ''}''))"

text \<open>
  Where the top-level block that is open before index \<open>i\<close> starts: the last opening brace
  before \<open>i\<close> that was read at depth zero.
\<close>

definition block_start :: "string \<Rightarrow> nat \<Rightarrow> nat option" where
  "block_start text i =
     (case filter (\<lambda>j. text ! j = CHR ''{'' \<and> depth_at text j = 0) (rev [0..<i]) of
        [] \<Rightarrow> None
      | j # _ \<Rightarrow> Some j)"

text \<open>
  The top-level blocks that end at an index from \<open>i\<close> on, from left to right: one for each
  closing brace that brings the depth back to zero, from the start of the block to that
  brace.
\<close>

definition block_ending_at :: "string \<Rightarrow> nat \<Rightarrow> string list" where
  "block_ending_at text e =
     (if text ! e = CHR ''}'' \<and> depth_at text (e + 1) = 0
      then (case block_start text e of Some j \<Rightarrow> [slice text j (e + 1)] | None \<Rightarrow> [])
      else [])"








section \<open>Values for the examples\<close>

text \<open>
  A runtime for the examples. Its \<open>JSON_parse\<close> is a table: each entry is what
  \<open>JSON.parse\<close> gives for that text, and it answers \<open>None\<close> for every other text; the
  examples parse no text outside the table that \<open>JSON.parse\<close> accepts. Its
  \<open>StringToNumber\<close> converts the string \<open>4\<close> and answers \<open>NaN\<close> otherwise; the only
  other string the examples convert is \<open>four\<close>. No example converts a number to a
  string.
\<close>

definition sample_texts :: "(string \<times> jsval) list" where
  "sample_texts =
     [(''{\"a\":1}'', JObj [(''a'', JNum (Fin 1))]),
      (''{\"b\":2}'', JObj [(''b'', JNum (Fin 2))]),
      (''{\"time_signature\":\"4/4\",\"length_bars\":4,\"notes\":[{\"tb\":0,\"db\":1,\"p\":60.5,\"v\":1}]}'',
       JObj [(''time_signature'', JStr ''4/4''), (''length_bars'', JNum (Fin 4)),
             (''notes'', JArr [JObj [(''tb'', JNum (Fin 0)), (''db'', JNum (Fin 1)),
                                     (''p'', JNum (Fin (121 / 2))), (''v'', JNum (Fin 1))]])]),
      (''{\"time_signature\":\"4/4\",\"length_bars\":4,\"key\":\"C\",\"mode\":\"major\",\"notes\":[{\"tb\":0,\"db\":1,\"p\":61,\"v\":1},{\"tb\":15,\"db\":2,\"p\":60,\"v\":1}]}'',
       JObj [(''time_signature'', JStr ''4/4''), (''length_bars'', JNum (Fin 4)),
             (''key'', JStr ''C''), (''mode'', JStr ''major''),
             (''notes'', JArr [JObj [(''tb'', JNum (Fin 0)), (''db'', JNum (Fin 1)),
                                     (''p'', JNum (Fin 61)), (''v'', JNum (Fin 1))],
                               JObj [(''tb'', JNum (Fin 15)), (''db'', JNum (Fin 2)),
                                     (''p'', JNum (Fin 60)), (''v'', JNum (Fin 1))]])])]"

definition sample_runtime :: runtime where
  "sample_runtime =
     \<lparr>StringToNumber = (\<lambda>s. if s = ''4'' then Fin 4 else NaN),
      NumberToString = (\<lambda>n. ''NaN''),
      JSON_parse = map_of sample_texts\<rparr>"

text \<open>A request that leaves every field out, and a note with the four fields of the schema.\<close>

definition empty_request :: body where
  "empty_request =
     \<lparr>clipType = JUndefined, bars = JUndefined, key = JUndefined, mode = JUndefined,
      feel = JUndefined, text' = JUndefined\<rparr>"

definition mk_note :: "real \<Rightarrow> real \<Rightarrow> real \<Rightarrow> jsval" where
  "mk_note tb db p =
     JObj [(''tb'', JNum (Fin tb)), (''db'', JNum (Fin db)), (''p'', JNum (Fin p)),
           (''v'', JNum (Fin 1))]"

text \<open>The scale \<open>buildScale('C', 'major')\<close> returns.\<close>

definition C_major :: scale where
  "C_major =
     \<lparr>root = Own 0, degrees = [0, 2, 4, 5, 7, 9, 11],
      set' = [Fin 0, Fin 2, Fin 4, Fin 5, Fin 7, Fin 9, Fin 11]\<rparr>"

text \<open>A candidate document with a clip type, a key and an instrument, and no mode.\<close>

definition sample_candidate :: jsval where
  "sample_candidate =
     JObj [(''clip_type'', JStr ''lead''), (''time_signature'', JStr ''3/4''),
           (''length_bars'', JNum (Fin 4)), (''key'', JStr ''C''),
           (''instrument'', JObj [(''name'', JStr ''Piano''), (''program'', JNum (Fin 0))]),
           (''notes'', JArr [])]"





section \<open>The pitch class of an integer\<close>

declare nearest_from.simps [simp del]
declare scan.simps [simp del]

lemma trunc_of_int_div:
  "trunc (of_int k / 12) = (if k < 0 then - ((- k) div 12) else k div 12)"
proof -
  have a: "\<lfloor>real_of_int k / 12\<rfloor> = k div 12"
    using floor_divide_of_int_eq [of k 12, where ?'a = real] by simp
  have b: "\<lfloor>- (real_of_int k / 12)\<rfloor> = (- k) div 12"
    using floor_divide_of_int_eq [of "- k" 12, where ?'a = real] by simp
  have c: "(real_of_int k / 12 < 0) = (k < 0)" by simp
  show ?thesis unfolding trunc_def c using a b by simp
qed

lemma js_rem_of_int:
  "js_rem (of_int k) 12 = of_int (if k < 0 then - ((- k) mod 12) else k mod 12)"
proof -
  have "js_rem (of_int k) 12 = of_int (k - 12 * (if k < 0 then - ((- k) div 12) else k div 12))"
    unfolding js_rem_def trunc_of_int_div by simp
  also have "k - 12 * (if k < 0 then - ((- k) div 12) else k div 12)
      = (if k < 0 then - ((- k) mod 12) else k mod 12)"
    by (simp add: minus_mult_div_eq_mod algebra_simps)
       (metis minus_mult_div_eq_mod diff_minus_eq_add add.commute minus_diff_eq)
  finally show ?thesis .
qed

text \<open>On an integer, \<open>pc\<close> is the remainder modulo 12 that is never negative.\<close>

lemma pc_of_int: "pc (of_int k) = of_int (k mod 12)"
proof -
  define r where "r = (if k < 0 then - ((- k) mod 12) else k mod 12)"
  have r: "- 12 < r" "r < 12" "r mod 12 = k mod 12"
    unfolding r_def by (auto simp: mod_minus_eq)
  have 1: "js_rem (of_int k) 12 = of_int r"
    by (simp add: js_rem_of_int r_def)
  have 2: "pc (of_int k) = js_rem (of_int (r + 12)) 12"
    by (simp add: pc_def 1)
  have 3: "js_rem (of_int (r + 12)) 12 = of_int ((r + 12) mod 12)"
    unfolding js_rem_of_int using r by simp
  show ?thesis using 2 3 r by simp
qed

section \<open>The search of \<open>nearestInScale\<close>\<close>

text \<open>The loop returns the pitch itself or a value the set holds.\<close>

lemma nearest_from_cases:
  "nearest_from p s d = p \<or> has s (pc (nearest_from p s d))"
proof (induction p s d rule: nearest_from.induct)
  case (1 p s d)
  show ?case
  proof (cases "d \<le> 6 \<and> \<not> has s (pc (p - real d)) \<and> \<not> has s (pc (p + real d))")
    case True
    then have "nearest_from p s d = nearest_from p s (d + 1)"
      by (subst nearest_from.simps) simp
    with 1 True show ?thesis by simp
  next
    case False
    then show ?thesis by (subst (1 2) nearest_from.simps) auto
  qed
qed




text \<open>
  The scale built for a key of the pitch-class table holds a pitch class: its root.
\<close>

lemma get_property_Own: "get_property obj x = Own v \<Longrightarrow> (x, v) \<in> set obj"
  by (auto simp: get_property_def split: option.splits if_splits dest: map_of_SomeD)

lemma PITCH_CLASS_range: "get_property PITCH_CLASS x = Own r \<Longrightarrow> 0 \<le> r \<and> r < 12"
  by (drule get_property_Own) (auto simp: PITCH_CLASS_def)

lemma MODES_zero: "get_property MODES x = Own ds \<Longrightarrow> 0 \<in> set ds"
  by (drule get_property_Own) (auto simp: MODES_def)

lemma root_plus_zero: "0 \<le> r \<Longrightarrow> r < 12 \<Longrightarrow> root_plus (Own r) 0 = Fin (real_of_int r)"
  by (simp add: root_plus_def js_rem_of_int)

lemma buildScale_table_key:
  assumes r: "get_property PITCH_CLASS (ToString rt k) = Own r"
      and s: "buildScale rt k m = Inr (Some s)"
  shows "\<exists>c. 0 \<le> c \<and> c < 12 \<and> Fin (real_of_int c) \<in> set (set' s)"
proof -
  from r have range: "0 \<le> r" "r < 12" using PITCH_CLASS_range by blast+
  from s have nt: "\<not> throws k" by (auto simp: buildScale_def split: if_splits)
  from s nt obtain ms where ms: "js_or m (JStr []) = JStr ms"
    by (cases "js_or m (JStr [])") (simp_all add: buildScale_def Let_def)
  have "\<exists>ds. 0 \<in> set ds \<and> set' s = remdups (map (root_plus (Own r)) ds)"
  proof (cases "get_property MODES (toLowerCase ms)")
    case (Own ds)
    with s nt ms r have "set' s = remdups (map (root_plus (Own r)) ds)"
      by (auto simp: buildScale_def Let_def)
    with Own show ?thesis using MODES_zero by blast
  next
    case Inherited
    with s nt ms r show ?thesis by (simp add: buildScale_def Let_def)
  next
    case Missing
    with s nt ms r have "set' s = remdups (map (root_plus (Own r)) MODES_major)"
      by (auto simp: buildScale_def Let_def)
    moreover have "0 \<in> set MODES_major" by (simp add: MODES_major_def)
    ultimately show ?thesis by blast
  qed
  then obtain ds where ds: "0 \<in> set ds" and set: "set' s = remdups (map (root_plus (Own r)) ds)"
    by blast
  have "root_plus (Own r) 0 \<in> set (set' s)" using ds by (simp add: set)
  then have "Fin (real_of_int r) \<in> set (set' s)" using range by (simp add: root_plus_zero)
  with range show ?thesis by blast
qed


text \<open>Evaluation at the pitch 61 in C major: the search goes down to 60.\<close>

lemma pc_numeral [simp]: "pc (numeral n) = of_int (numeral n mod 12)"
  using pc_of_int [of "numeral n"] by simp

lemma nearest_61_C_major: "nearestInScale 61 (Some C_major) = 60"
  by (simp add: nearestInScale_def inScale_def has_def C_major_def nearest_from.simps)



text \<open>
  C9. \<open>nearestInScale\<close> is idempotent, for every pitch (integer or not) and every scale,
  \<open>null\<close> included.
\<close>

theorem nearestInScale_idempotent:
  "nearestInScale (nearestInScale p s) s = nearestInScale p s"
proof (cases s)
  case None
  then show ?thesis by (simp add: nearestInScale_def)
next
  case (Some sc)
  show ?thesis
  proof (cases "inScale p s")
    case True
    then show ?thesis using Some by (simp add: nearestInScale_def)
  next
    case False
    then have r: "nearestInScale p s = nearest_from p sc 1"
      using Some by (simp add: nearestInScale_def)
    from nearest_from_cases [of p sc 1] show ?thesis
    proof
      assume "nearest_from p sc 1 = p"
      with r show ?thesis by simp
    next
      assume "has sc (pc (nearest_from p sc 1))"
      then have "inScale (nearestInScale p s) s" using r Some by (simp add: inScale_def)
      then show ?thesis using Some by (simp add: nearestInScale_def)
    qed
  qed
qed

text \<open>C9 at the pitch 61 and the scale C major.\<close>

theorem nearestInScale_idempotent_witness:
  "nearestInScale (nearestInScale 61 (Some C_major)) (Some C_major) = 60"
  using nearestInScale_idempotent [of 61 "Some C_major"] nearest_61_C_major by simp

section \<open>The scan of \<open>extractJson\<close>\<close>

text \<open>One step of the depth, of the start of the open block and of the list of blocks.\<close>

lemma depth_at_Suc:
  "i < length text \<Longrightarrow>
   depth_at text (Suc i) =
     depth_at text i + (if text ! i = CHR ''{'' then 1 else if text ! i = CHR ''}'' then - 1 else 0)"
  by (simp add: depth_at_def take_Suc_conv_app_nth)

lemma block_start_Suc:
  "block_start text (Suc i) =
     (if text ! i = CHR ''{'' \<and> depth_at text i = 0 then Some i else block_start text i)"
  by (simp add: block_start_def)



lemma depth_at_beyond: "length text \<le> i \<Longrightarrow> depth_at text (Suc i) = depth_at text i"
  by (simp add: depth_at_def)

lemma open_block_has_start: "0 < depth_at text i \<Longrightarrow> block_start text i \<noteq> None"
proof (induction i)
  case 0
  then show ?case by (simp add: depth_at_def)
next
  case (Suc i)
  show ?case
  proof (cases "i < length text")
    case False
    with Suc show ?thesis by (simp add: depth_at_beyond block_start_Suc)
  next
    case True
    show ?thesis
    proof (cases "text ! i = CHR ''{'' \<and> depth_at text i = 0")
      case True
      then show ?thesis by (simp add: block_start_Suc)
    next
      case False
      with Suc.prems True have "0 < depth_at text i"
        by (auto simp: depth_at_Suc split: if_splits)
      with Suc.IH False show ?thesis by (simp add: block_start_Suc)
    qed
  qed
qed

text \<open>
  A closing brace that brings the depth back to zero always ends a block: the scan has
  a start whenever the depth is positive.
\<close>

lemma block_ending_at_returns:
  assumes "e < length text" "text ! e = CHR ''}''" "depth_at text (e + 1) = 0"
  shows "\<exists>j. block_start text e = Some j \<and> block_ending_at text e = [slice text j (e + 1)]"
proof -
  have "depth_at text e = 1" using assms by (simp add: depth_at_Suc)
  then have "block_start text e \<noteq> None" using open_block_has_start [of "text" e] by simp
  then show ?thesis using assms by (auto simp: block_ending_at_def)
qed










text \<open>The fenced example, and a text with no candidate that parses.\<close>

lemma extractJson_fenced_example: "extractJson sample_runtime (JStr (''```json'' @ [CHR 0x0A] @ ''{\"a\":1}'' @ [CHR 0x0A] @ ''```'')) = Inr (JObj [(''a'', JNum (Fin 1))])"
  by (simp add: extractJson_def trim_def isSpace_def toLowerCase_def toLower_def upper_case_def lower_case_def sample_runtime_def sample_texts_def)

lemma extractJson_garbage_example: "extractJson sample_runtime (JStr ''garbage } { not json'') = Inl No_valid_JSON"
  by (simp add: extractJson_def trim_def isSpace_def first_last_slice_def indexOf_def lastIndexOf_def scan.simps sample_runtime_def sample_texts_def)

section \<open>Reading and writing the fields of a document\<close>

lemma get_field_Nil [simp]: "get_field (JObj []) k = JUndefined"
  by simp

lemma get_field_Cons [simp]:
  "get_field (JObj ((k, v) # fs)) k' = (if k' = k then v else get_field (JObj fs) k')"
  by simp

lemma get_field_update [simp]:
  "get_field (JObj (AList.update k v fs)) k' = (if k' = k then v else get_field (JObj fs) k')"
  by (simp add: update_conv')

declare get_field.simps(1) [simp del]

lemma get_set_field:
  "get_field (set_field (JObj fs) k v) k' = (if k' = k then v else get_field (JObj fs) k')"
  by simp

lemma set_field_JObj: "\<exists>fs'. set_field (JObj fs) k v = JObj fs'"
  by simp


lemma defaulting_JObj: "\<exists>fs'. defaulting req lengthBars (JObj fs) = JObj fs'"
  by (simp add: defaulting_def Let_def)

lemma defaulting_get:
  "get_field (defaulting req lengthBars (JObj fs)) k =
     (if k = ''clip_type'' then
        js_or (clipType req) (js_or (get_field (JObj fs) ''clip_type'') (JStr ''chords''))
      else if k = ''length_bars'' then JNum lengthBars
      else if k = ''time_signature'' then
        js_or (get_field (JObj fs) ''time_signature'') (JStr ''4/4'')
      else if k = ''key'' then
        (if truthy (key req) \<and> \<not> truthy (get_field (JObj fs) ''key'') then key req
         else get_field (JObj fs) ''key'')
      else if k = ''mode'' then
        (if truthy (mode req) \<and> \<not> truthy (get_field (JObj fs) ''mode'') then mode req
         else get_field (JObj fs) ''mode'')
      else get_field (JObj fs) k)"
  by (simp add: defaulting_def Let_def)

section \<open>Defaulting\<close>

text \<open>
  C2 (amended). The request's key and mode only fill a field that the candidate left
  empty (absent or falsy), and a truthy key, mode and time signature of the candidate are
  kept. \<open>length_bars\<close> becomes the number \<open>Number(length_bars)\<close> when that is neither zero
  nor \<open>NaN\<close>. The clip type is different: a truthy \<open>clipType\<close> of the request replaces the
  candidate's \<open>clip_type\<close>, which is kept only when the request gives none. Every other
  field of the candidate is left as it was.
\<close>

theorem defaulting_fills_absent_fields:
  fixes fs :: "(string \<times> jsval) list" and req :: body and lengthBars :: jsnum
    and rt :: runtime and barsNum :: jsnum
  defines "data \<equiv> JObj fs"
  defines "out \<equiv> defaulting req lengthBars data"
  shows
   "(truthy (get_field data ''key'') \<longrightarrow> get_field out ''key'' = get_field data ''key'')
  \<and> (truthy (get_field data ''mode'') \<longrightarrow> get_field out ''mode'' = get_field data ''mode'')
  \<and> (truthy (get_field data ''time_signature'') \<longrightarrow>
        get_field out ''time_signature'' = get_field data ''time_signature'')
  \<and> (\<not> truthy (get_field data ''key'') \<and> truthy (key req) \<longrightarrow> get_field out ''key'' = key req)
  \<and> (\<not> truthy (get_field data ''mode'') \<and> truthy (mode req) \<longrightarrow>
        get_field out ''mode'' = mode req)
  \<and> (truthy (clipType req) \<longrightarrow> get_field out ''clip_type'' = clipType req)
  \<and> (\<not> truthy (clipType req) \<and> truthy (get_field data ''clip_type'') \<longrightarrow>
        get_field out ''clip_type'' = get_field data ''clip_type'')
  \<and> (\<not> truthy (clipType req) \<and> \<not> truthy (get_field data ''clip_type'') \<longrightarrow>
        get_field out ''clip_type'' = JStr ''chords'')
  \<and> get_field out ''length_bars'' = JNum lengthBars
  \<and> (\<forall>lb. lengthBars_of rt barsNum data = Inr lengthBars
          \<and> ToNumber rt (get_field data ''length_bars'') = Inr lb \<and> truthy (JNum lb)
        \<longrightarrow> lengthBars = lb)
  \<and> (\<forall>k. k \<notin> {''clip_type'', ''length_bars'', ''time_signature'', ''key'', ''mode''} \<longrightarrow>
        get_field out k = get_field data k)"
  unfolding out_def data_def
  by (auto simp add: defaulting_get js_or_def lengthBars_of_def num_or_def)

text \<open>
  C2 at a request with a key and a mode and a candidate with a key and no mode:
  the key is kept, the mode is filled in.
\<close>

theorem defaulting_fills_absent_fields_witness:
  "truthy (get_field sample_candidate ''key'')
   \<and> \<not> truthy (get_field sample_candidate ''mode'')
   \<and> truthy (mode (empty_request\<lparr>key := JStr ''D'', mode := JStr ''minor''\<rparr>))
   \<and> get_field
        (defaulting (empty_request\<lparr>key := JStr ''D'', mode := JStr ''minor''\<rparr>) (Fin 4)
           sample_candidate) ''key'' = JStr ''C''
   \<and> get_field
        (defaulting (empty_request\<lparr>key := JStr ''D'', mode := JStr ''minor''\<rparr>) (Fin 4)
           sample_candidate) ''mode'' = JStr ''minor''
   \<and> get_field
        (defaulting (empty_request\<lparr>key := JStr ''D'', mode := JStr ''minor''\<rparr>) (Fin 4)
           sample_candidate) ''clip_type'' = JStr ''lead''
   \<and> get_field
        (defaulting (empty_request\<lparr>key := JStr ''D'', mode := JStr ''minor''\<rparr>) (Fin 4)
           sample_candidate) ''instrument'' = get_field sample_candidate ''instrument''"
  using defaulting_fills_absent_fields
    [of "[(''clip_type'', JStr ''lead''), (''time_signature'', JStr ''3/4''),
           (''length_bars'', JNum (Fin 4)), (''key'', JStr ''C''),
           (''instrument'', JObj [(''name'', JStr ''Piano''), (''program'', JNum (Fin 0))]),
           (''notes'', JArr [])]"
        "empty_request\<lparr>key := JStr ''D'', mode := JStr ''minor''\<rparr>" "Fin 4" sample_runtime "Fin 8"]
  by (simp add: sample_candidate_def empty_request_def)

text \<open>
  C2 as the specification states it fails for the clip type: the candidate supplies \<open>lead\<close>, the
  request \<open>bass\<close>, and the document returned carries \<open>bass\<close>.
\<close>

theorem request_clipType_overrides_counterexample:
  "get_field sample_candidate ''clip_type'' = JStr ''lead''
   \<and> clipType (empty_request\<lparr>clipType := JStr ''bass''\<rparr>) = JStr ''bass''
   \<and> (\<exists>out. respond sample_runtime \<lparr>STRICT_SCALE = False, SNAP_TO_SCALE = True\<rparr>
               (empty_request\<lparr>clipType := JStr ''bass''\<rparr>) (Fin 8) sample_candidate = Inr out
            \<and> get_field out ''clip_type'' = JStr ''bass'')"
  by (simp add: sample_candidate_def empty_request_def respond_def schema_missing_def clamp_def
        totalBeats_of_def lengthBars_of_def beatsPerBar_def startsWith_def num_or_def
        defaulting_def js_or_def filter_notes_def scale_enforcement_def scaleSet_of_def Let_def)

section \<open>Clamping by bar length\<close>



lemma beatsPerBar_JStr: "beatsPerBar (JStr ts) = Inr (if startsWith ts ''3/'' then 3 else 4)"
  by (auto simp: beatsPerBar_def startsWith_def)

lemma defaulting_notes [simp]:
  "get_field (defaulting req lengthBars (JObj fs)) ''notes'' = get_field (JObj fs) ''notes''"
  by (simp add: defaulting_get)

lemma clamp_unfold:
  "clamp rt req barsNum (JObj fs) =
     (case beatsPerBar (get_field (JObj fs) ''time_signature'') of
        Inl e \<Rightarrow> Inl e
      | Inr bpb \<Rightarrow>
          (case ToNumber rt (get_field (JObj fs) ''length_bars'') of
             Inl e \<Rightarrow> Inl e
           | Inr lb \<Rightarrow>
               if JNull \<in> set (elements (get_field (JObj fs) ''notes''))
                  \<or> JUndefined \<in> set (elements (get_field (JObj fs) ''notes''))
               then Inl TypeError
               else Inr (set_field (defaulting req (num_or lb barsNum) (JObj fs)) ''notes''
                      (JArr (filter (note_ok (js_times (num_or lb barsNum) bpb))
                               (elements (get_field (JObj fs) ''notes'')))))))"
proof (cases "beatsPerBar (get_field (JObj fs) ''time_signature'')")
  case (Inl e)
  then show ?thesis by (simp add: clamp_def totalBeats_of_def)
next
  case bpb: (Inr bpb)
  show ?thesis
  proof (cases "ToNumber rt (get_field (JObj fs) ''length_bars'')")
    case (Inl e)
    then show ?thesis using bpb by (simp add: clamp_def totalBeats_of_def lengthBars_of_def)
  next
    case (Inr lb)
    then show ?thesis using bpb
      by (simp add: clamp_def totalBeats_of_def lengthBars_of_def filter_notes_def Let_def)
  qed
qed





text \<open>
  C5 (amended). When \<open>Number(length_bars)\<close> is zero or \<open>NaN\<close>, \<open>totalBeats\<close> is computed
  from the request's bar count and the document's \<open>length_bars\<close> is set to it. Every
  other number, a negative one included, is used as it is.
\<close>

theorem lengthBars_fallback:
  fixes fs :: "(string \<times> jsval) list"
  assumes n: "ToNumber rt (get_field (JObj fs) ''length_bars'') = Inr n"
      and bpb: "beatsPerBar (get_field (JObj fs) ''time_signature'') = Inr bpb"
      and d: "clamp rt req barsNum (JObj fs) = Inr d"
  shows "(n = Fin 0 \<or> n = NaN \<longrightarrow>
            totalBeats_of rt barsNum (JObj fs) = Inr (js_times barsNum bpb)
          \<and> get_field d ''length_bars'' = JNum barsNum)
       \<and> (n \<noteq> Fin 0 \<and> n \<noteq> NaN \<longrightarrow>
            totalBeats_of rt barsNum (JObj fs) = Inr (js_times n bpb)
          \<and> get_field d ''length_bars'' = JNum n)"
proof -
  have t: "truthy (JNum n) \<longleftrightarrow> n \<noteq> Fin 0 \<and> n \<noteq> NaN"
    by (cases n) auto
  obtain fs' where fs': "defaulting req (num_or n barsNum) (JObj fs) = JObj fs'"
    using defaulting_JObj by blast
  have lbf: "get_field (JObj fs') ''length_bars'' = JNum (num_or n barsNum)"
    using defaulting_get [of req "num_or n barsNum" fs "''length_bars''"] fs' by simp
  from d n bpb have "get_field d ''length_bars'' = JNum (num_or n barsNum)"
    using lbf by (auto simp: clamp_unfold fs' split: if_splits)
  moreover have "totalBeats_of rt barsNum (JObj fs) = Inr (js_times (num_or n barsNum) bpb)"
    using n bpb by (simp add: totalBeats_of_def lengthBars_of_def)
  ultimately show ?thesis using t by (auto simp: num_or_def)
qed

text \<open>C5 at a \<open>length_bars\<close> that is not numeric and a request of 8 bars.\<close>

theorem lengthBars_fallback_witness:
  "ToNumber sample_runtime
     (get_field (JObj [(''time_signature'', JStr ''4/4''), (''length_bars'', JStr ''four''),
                       (''notes'', JArr [])]) ''length_bars'') = Inr NaN
   \<and> beatsPerBar
       (get_field (JObj [(''time_signature'', JStr ''4/4''), (''length_bars'', JStr ''four''),
                         (''notes'', JArr [])]) ''time_signature'') = Inr 4
   \<and> clamp sample_runtime empty_request (Fin 8)
       (JObj [(''time_signature'', JStr ''4/4''), (''length_bars'', JStr ''four''),
              (''notes'', JArr [])])
       = Inr (JObj [(''time_signature'', JStr ''4/4''), (''length_bars'', JNum (Fin 8)),
                    (''notes'', JArr []), (''clip_type'', JStr ''chords'')])
   \<and> totalBeats_of sample_runtime (Fin 8)
       (JObj [(''time_signature'', JStr ''4/4''), (''length_bars'', JStr ''four''),
              (''notes'', JArr [])]) = Inr (Fin 32)
   \<and> get_field (JObj [(''time_signature'', JStr ''4/4''), (''length_bars'', JNum (Fin 8)),
                    (''notes'', JArr []), (''clip_type'', JStr ''chords'')]) ''length_bars''
       = JNum (Fin 8)"
proof -
  have h: "ToNumber sample_runtime
     (get_field (JObj [(''time_signature'', JStr ''4/4''), (''length_bars'', JStr ''four''),
                       (''notes'', JArr [])]) ''length_bars'') = Inr NaN"
    "beatsPerBar
       (get_field (JObj [(''time_signature'', JStr ''4/4''), (''length_bars'', JStr ''four''),
                         (''notes'', JArr [])]) ''time_signature'') = Inr 4"
    "clamp sample_runtime empty_request (Fin 8)
       (JObj [(''time_signature'', JStr ''4/4''), (''length_bars'', JStr ''four''),
              (''notes'', JArr [])])
       = Inr (JObj [(''time_signature'', JStr ''4/4''), (''length_bars'', JNum (Fin 8)),
                    (''notes'', JArr []), (''clip_type'', JStr ''chords'')])"
    by (simp_all add: sample_runtime_def clamp_unfold beatsPerBar_JStr startsWith_def num_or_def
          defaulting_def js_or_def empty_request_def Let_def)
  from lengthBars_fallback [OF h] h show ?thesis by simp
qed

text \<open>
  C5 as the specification states it fails for a negative \<open>length_bars\<close>: with \<open>-2\<close> and a
  request of 8 bars, \<open>totalBeats\<close> is \<open>-8\<close> and the document keeps \<open>-2\<close>.
\<close>

theorem negative_lengthBars_kept_counterexample:
  "ToNumber sample_runtime
     (get_field (JObj [(''time_signature'', JStr ''4/4''), (''length_bars'', JNum (Fin (- 2))),
                       (''notes'', JArr [mk_note 0 1 60])]) ''length_bars'') = Inr (Fin (- 2))
   \<and> totalBeats_of sample_runtime (Fin 8)
       (JObj [(''time_signature'', JStr ''4/4''), (''length_bars'', JNum (Fin (- 2))),
              (''notes'', JArr [mk_note 0 1 60])]) = Inr (Fin (- 8))
   \<and> clamp sample_runtime empty_request (Fin 8)
       (JObj [(''time_signature'', JStr ''4/4''), (''length_bars'', JNum (Fin (- 2))),
              (''notes'', JArr [mk_note 0 1 60])])
       = Inr (JObj [(''time_signature'', JStr ''4/4''), (''length_bars'', JNum (Fin (- 2))),
                    (''notes'', JArr []), (''clip_type'', JStr ''chords'')])"
  by (simp add: clamp_unfold totalBeats_of_def lengthBars_of_def beatsPerBar_JStr startsWith_def
        num_or_def mk_note_def note_ok_def defaulting_def js_or_def empty_request_def Let_def)

section \<open>Scale enforcement\<close>












text \<open>Evaluation of the scale helpers on the examples.\<close>

lemmas eval_scale =
  scaleSet_of_def buildScale_def get_property_def PITCH_CLASS_def MODES_def MODES_major_def
  Object_prototype_def js_or_def toLowerCase_def toLower_def upper_case_def lower_case_def
  root_plus_def js_rem_def trunc_def


















section \<open>The documents the handler returns\<close>




















text \<open>
  What the snap branch does at the lower end of the range: in D major the pitch 0 is
  replaced by the nearest value below it, \<open>-1\<close>.
\<close>

lemma snap_below_zero_example:
  "buildScale sample_runtime (JStr ''D'') (JStr ''major'')
     = Inr (Some \<lparr>root = Own 2, degrees = [0, 2, 4, 5, 7, 9, 11],
                  set' = [Fin 2, Fin 4, Fin 6, Fin 7, Fin 9, Fin 11, Fin 1]\<rparr>)
   \<and> snap_note \<lparr>root = Own 2, degrees = [0, 2, 4, 5, 7, 9, 11],
                  set' = [Fin 2, Fin 4, Fin 6, Fin 7, Fin 9, Fin 11, Fin 1]\<rparr> (mk_note 0 1 0)
     = (mk_note 0 1 (- 1), 1)"
  by (simp add: eval_scale snap_note_def pitch_def mk_note_def inScale_def has_def
        nearestInScale_def nearest_from.simps Let_def pc_def)

end
